theory Spec2Isabelle
  imports Main
begin

section \<open>Shared data model\<close>

text \<open>
  Python \<open>bytes\<close> are lists of 8-bit characters.  \<open>pq.ExecStatus\<close> and \<open>pq.Format\<close>
  are the libpq enumerations the cursor and the COPY engine compare against.
\<close>

type_synonym bytes = "char list"

datatype ExecStatus =
    EMPTY_QUERY | COMMAND_OK | TUPLES_OK | COPY_OUT | COPY_IN
  | BAD_RESPONSE | NONFATAL_ERROR | FATAL_ERROR | COPY_BOTH | SINGLE_TUPLE

datatype Format = TEXT | BINARY

text \<open>
  A \<open>PGresult\<close>: its status, the row count of the command tag (\<open>None\<close> when the tag has
  none), the format of its tuples, and its tuples in server order.
\<close>

record PGresult =
  status :: ExecStatus
  command_tuples :: "int option"
  binary_tuples :: Format
  tuples :: "bytes option list list"

text \<open>
  Every \<open>raise\<close> of the source is a value.  \<open>ServerError\<close> is what
  \<open>e.error_from_result\<close> builds from a \<open>FATAL_ERROR\<close> result; \<open>ValueError\<close> is the failure
  of the unpacking \<open>(result,) = ...\<close>; \<open>UnboundLocalError\<close> is the read of a
  local that no branch has assigned; \<open>StructError\<close> is \<open>struct.error\<close>.
\<close>

datatype error =
    InterfaceError string
  | ProgrammingError string
  | InternalError string
  | DataError string
  | TypeError string
  | ServerError PGresult
  | ValueError
  | UnboundLocalError
  | StructError

section \<open>The connection as the cursor sees it\<close>

text \<open>
  The calls the cursor makes on \<open>pgconn\<close> are recorded in order; what
  \<open>conn.wait(execute(pgconn))\<close> returns is input from the server: the \<open>replies\<close> still to
  come, one list of results per wait.  When the server has nothing more to say the
  generator returns the empty list.
\<close>

datatype wire_call =
    SendQuery bytes
  | SendQueryParams bytes "bytes option list"
  | SendPrepare bytes bytes
  | SendQueryPrepared bytes "bytes option list"

record connection =
  conn_closed :: bool
  pgconn_status_ok :: bool
  sent :: "wire_call list"
  replies :: "PGresult list list"

definition wait_execute :: "connection \<Rightarrow> PGresult list \<times> connection" where
  "wait_execute cn =
     (case replies cn of
        [] \<Rightarrow> ([], cn)
      | r # rs \<Rightarrow> (r, cn\<lparr>replies := rs\<rparr>))"

definition pgconn_send :: "wire_call \<Rightarrow> connection \<Rightarrow> connection" where
  "pgconn_send w cn = cn\<lparr>sent := sent cn @ [w]\<rparr>"

text \<open>
  Modelled from the spec: \<open>PostgresQuery\<close> (the query builder, component E) is not among
  the sources.  Its \<open>convert\<close> compiles a query with its parameters and its \<open>dump\<close> re-binds
  fresh parameters to the compiled query; parameters arrive here already dumped.
\<close>

record PostgresQuery =
  pq_query :: bytes
  pq_params :: "bytes option list"

definition convert :: "bytes \<Rightarrow> bytes option list option \<Rightarrow> PostgresQuery" where
  "convert q ps = \<lparr>pq_query = q, pq_params = (case ps of None \<Rightarrow> [] | Some p \<Rightarrow> p)\<rparr>"

definition dump :: "PostgresQuery \<Rightarrow> bytes option list \<Rightarrow> PostgresQuery" where
  "dump pgq ps = pgq\<lparr>pq_params := ps\<rparr>"

section \<open>Cursor core (cursor.py)\<close>

record cursor =
  c_conn :: connection
  c_format :: Format
  c_closed :: bool
  c_arraysize :: int
  c_results :: "PGresult list"
  c_pgresult :: "PGresult option"
  c_pos :: nat
  c_iresult :: nat
  c_rowcount :: int
  c_query :: "bytes option"
  c_params :: "bytes option list option"

definition reset :: "cursor \<Rightarrow> cursor" where
  "reset cur = cur\<lparr>c_results := [], c_pgresult := None, c_pos := 0, c_iresult := 0,
                     c_rowcount := - 1, c_query := None, c_params := None\<rparr>"

definition start_query :: "cursor \<Rightarrow> error + cursor" where
  "start_query cur =
     (if c_closed cur then Inl (InterfaceError ''the cursor is closed'')
      else if conn_closed (c_conn cur) then Inl (InterfaceError ''the connection is closed'')
      else if \<not> pgconn_status_ok (c_conn cur)
        then Inl (InterfaceError ''cannot execute operations'')
      else Inr (reset cur))"

definition execute_send :: "cursor \<Rightarrow> bytes \<Rightarrow> bytes option list option \<Rightarrow> bool \<Rightarrow> cursor" where
  "execute_send cur query params no_pqexec =
     (let pgq = convert query params in
      if pq_params pgq \<noteq> [] \<or> no_pqexec \<or> c_format cur = BINARY
      then cur\<lparr>c_query := Some (pq_query pgq), c_params := Some (pq_params pgq),
               c_conn := pgconn_send (SendQueryParams (pq_query pgq) (pq_params pgq)) (c_conn cur)\<rparr>
      else cur\<lparr>c_query := Some (pq_query pgq), c_params := None,
               c_conn := pgconn_send (SendQuery (pq_query pgq)) (c_conn cur)\<rparr>)"

definition status_ok :: "ExecStatus set" where
  "status_ok = {TUPLES_OK, COMMAND_OK, EMPTY_QUERY}"

definition status_copy :: "ExecStatus set" where
  "status_copy = {COPY_IN, COPY_OUT, COPY_BOTH}"

definition execute_results :: "cursor \<Rightarrow> PGresult list \<Rightarrow> error + cursor" where
  "execute_results cur rs =
     (if rs = [] then Inl (InternalError ''got no result from the query'')
      else
        let statuses = set (map status rs);
            badstats = statuses - status_ok
        in if badstats = {} then
             (let cur1 = cur\<lparr>c_results := rs, c_pgresult := Some (hd rs)\<rparr> in
              case command_tuples (hd rs) of
                None \<Rightarrow> Inr cur1
              | Some nrows \<Rightarrow>
                  if c_rowcount cur1 < 0 then Inr (cur1\<lparr>c_rowcount := nrows\<rparr>)
                  else Inr (cur1\<lparr>c_rowcount := c_rowcount cur1 + nrows\<rparr>))
           else if status (last rs) = FATAL_ERROR then Inl (ServerError (last rs))
           else if badstats \<inter> status_copy \<noteq> {}
             then Inl (ProgrammingError ''COPY cannot be used with execute(); use copy() insead'')
           else Inl (InternalError ''got unexpected status from query''))"

definition execute :: "cursor \<Rightarrow> bytes \<Rightarrow> bytes option list option \<Rightarrow> error + cursor" where
  "execute cur query params =
     (case start_query cur of
        Inl e \<Rightarrow> Inl e
      | Inr cur1 \<Rightarrow>
          let cur2 = execute_send cur1 query params False;
              (rs, cn) = wait_execute (c_conn cur2)
          in execute_results (cur2\<lparr>c_conn := cn\<rparr>) rs)"

text \<open>\<open>BaseCursor.__init__\<close>, on a connection that is open and in status OK.\<close>

definition init_connection :: "PGresult list list \<Rightarrow> connection" where
  "init_connection rs = \<lparr>conn_closed = False, pgconn_status_ok = True, sent = [], replies = rs\<rparr>"

definition init_cursor :: "connection \<Rightarrow> Format \<Rightarrow> cursor" where
  "init_cursor cn fmt =
     \<lparr>c_conn = cn, c_format = fmt, c_closed = False, c_arraysize = 1, c_results = [],
      c_pgresult = None, c_pos = 0, c_iresult = 0, c_rowcount = - 1, c_query = None,
      c_params = None\<rparr>"

subsection \<open>executemany\<close>

definition send_prepare ::
  "cursor \<Rightarrow> bytes \<Rightarrow> bytes \<Rightarrow> bytes option list \<Rightarrow> PostgresQuery \<times> cursor" where
  "send_prepare cur name query params =
     (let pgq = convert query (Some params) in
      (pgq, cur\<lparr>c_query := Some (pq_query pgq),
                 c_conn := pgconn_send (SendPrepare name (pq_query pgq)) (c_conn cur)\<rparr>))"

definition send_query_prepared :: "cursor \<Rightarrow> bytes \<Rightarrow> PostgresQuery \<Rightarrow> cursor" where
  "send_query_prepared cur name pgq =
     cur\<lparr>c_params := Some (pq_params pgq),
         c_conn := pgconn_send (SendQueryPrepared name (pq_params pgq)) (c_conn cur)\<rparr>"

text \<open>\<open>(result,) = self._conn.wait(gen)\<close>: the reply must hold exactly one result.\<close>

definition wait_single :: "cursor \<Rightarrow> error + (PGresult \<times> cursor)" where
  "wait_single cur =
     (let (rs, cn) = wait_execute (c_conn cur) in
      case rs of
        [result] \<Rightarrow> Inr (result, cur\<lparr>c_conn := cn\<rparr>)
      | _ \<Rightarrow> Inl ValueError)"

text \<open>
  The body of the \<open>for params in params_seq\<close> loop.  The loop variables are the cursor,
  the flag \<open>first\<close> and the compiled query \<open>pgq\<close> (unbound before the first iteration).
  The source assigns \<open>first\<close> once, before the loop, and the loop body never assigns it, so
  each iteration hands it on unchanged.
\<close>

fun executemany_loop ::
  "cursor \<Rightarrow> bytes \<Rightarrow> bool \<Rightarrow> PostgresQuery option \<Rightarrow> bytes option list list \<Rightarrow> error + cursor"
where
  "executemany_loop cur query first pgq [] = Inr cur"
| "executemany_loop cur query first pgq (params # params_seq) =
     (case (if first then
              (let (pgq1, cur1) = send_prepare cur [] query params in
               case wait_single cur1 of
                 Inl e \<Rightarrow> Inl e
               | Inr (result, cur2) \<Rightarrow>
                   if status result = FATAL_ERROR then Inl (ServerError result)
                   else Inr (pgq1, cur2))
            else
              (case pgq of
                 None \<Rightarrow> Inl UnboundLocalError
               | Some pgq0 \<Rightarrow> Inr (dump pgq0 params, cur)))
      of
        Inl e \<Rightarrow> Inl e
      | Inr (pgq2, cur3) \<Rightarrow>
          (case wait_single (send_query_prepared cur3 [] pgq2) of
             Inl e \<Rightarrow> Inl e
           | Inr (result, cur4) \<Rightarrow>
               (case execute_results cur4 [result] of
                  Inl e \<Rightarrow> Inl e
                | Inr cur5 \<Rightarrow> executemany_loop cur5 query first (Some pgq2) params_seq)))"

definition executemany :: "cursor \<Rightarrow> bytes \<Rightarrow> bytes option list list \<Rightarrow> error + cursor" where
  "executemany cur query params_seq =
     (case start_query cur of
        Inl e \<Rightarrow> Inl e
      | Inr cur1 \<Rightarrow> executemany_loop cur1 query True None params_seq)"

definition count_prepares :: "wire_call list \<Rightarrow> nat" where
  "count_prepares ws =
     length (filter (\<lambda>w. case w of SendPrepare _ _ \<Rightarrow> True | _ \<Rightarrow> False) ws)"

text \<open>A result of a command that succeeded, with the row count of its tag.\<close>

definition ok_result :: "int option \<Rightarrow> PGresult" where
  "ok_result n = \<lparr>status = COMMAND_OK, command_tuples = n, binary_tuples = TEXT, tuples = []\<rparr>"

subsection \<open>Row counts as the specification words them\<close>

text \<open>
  The specification's reading of \<open>rowcount\<close> after \<open>execute\<close>: the sum of
  \<open>command_tuples\<close> over the results that have one, and \<open>-1\<close> when none has.
\<close>

definition rowcount_sum :: "PGresult list \<Rightarrow> int" where
  "rowcount_sum rs =
     (if list_all (\<lambda>r. command_tuples r = None) rs then - 1
      else sum_list (map (\<lambda>r. case command_tuples r of None \<Rightarrow> 0 | Some n \<Rightarrow> n) rs))"

subsection \<open>Fetching\<close>

definition check_result :: "cursor \<Rightarrow> error + unit" where
  "check_result cur =
     (case c_pgresult cur of
        None \<Rightarrow> Inl (ProgrammingError ''no result available'')
      | Some res \<Rightarrow>
          if status res \<noteq> TUPLES_OK
          then Inl (ProgrammingError ''the last operation didn't produce a result'')
          else Inr ())"

text \<open>
  Modelled from the spec: the \<open>Transformer\<close> is not among the sources.  Its
  \<open>load_row(i)\<close> returns the values of row \<open>i\<close> of the current result, or nil when
  \<open>i \<ge> ntuples\<close>; the current result is the one the cursor's \<open>pgresult\<close> setter handed
  to it.
\<close>

definition load_row :: "cursor \<Rightarrow> nat \<Rightarrow> bytes option list option" where
  "load_row cur i =
     (case c_pgresult cur of
        None \<Rightarrow> None
      | Some res \<Rightarrow> if i < length (tuples res) then Some (tuples res ! i) else None)"

definition fetchone :: "cursor \<Rightarrow> error + (bytes option list option \<times> cursor)" where
  "fetchone cur =
     (case check_result cur of
        Inl e \<Rightarrow> Inl e
      | Inr _ \<Rightarrow>
          (case load_row cur (c_pos cur) of
             None \<Rightarrow> Inr (None, cur)
           | Some rv \<Rightarrow> Inr (Some rv, cur\<lparr>c_pos := c_pos cur + 1\<rparr>)))"

text \<open>\<open>k\<close> calls of \<open>fetchone\<close> in a row, with what each returned.\<close>

fun fetchone_times :: "nat \<Rightarrow> cursor \<Rightarrow> error + (bytes option list option list \<times> cursor)" where
  "fetchone_times 0 cur = Inr ([], cur)"
| "fetchone_times (Suc k) cur =
     (case fetchone cur of
        Inl e \<Rightarrow> Inl e
      | Inr (rv, cur1) \<Rightarrow>
          (case fetchone_times k cur1 of
             Inl e \<Rightarrow> Inl e
           | Inr (rvs, cur2) \<Rightarrow> Inr (rv # rvs, cur2)))"

text \<open>The \<open>for _ in range(size)\<close> loop of \<open>fetchmany\<close>, on the locals \<open>pos\<close> and \<open>rv\<close>.\<close>

fun fetchmany_loop ::
  "nat \<Rightarrow> cursor \<Rightarrow> nat \<Rightarrow> bytes option list list \<Rightarrow> nat \<times> bytes option list list" where
  "fetchmany_loop 0 cur pos rv = (pos, rv)"
| "fetchmany_loop (Suc n) cur pos rv =
     (case load_row cur pos of
        None \<Rightarrow> (pos, rv)
      | Some row \<Rightarrow> fetchmany_loop n cur (pos + 1) (rv @ [row]))"

definition fetchmany :: "cursor \<Rightarrow> int \<Rightarrow> error + (bytes option list list \<times> cursor)" where
  "fetchmany cur sz =
     (case check_result cur of
        Inl e \<Rightarrow> Inl e
      | Inr _ \<Rightarrow>
          let size1 = (if sz = 0 then c_arraysize cur else sz);
              (pos, rv) = fetchmany_loop (nat size1) cur (c_pos cur) []
          in Inr (rv, cur\<lparr>c_pos := pos\<rparr>))"

text \<open>
  \<open>__iter__\<close> run to exhaustion, as \<open>fetchall\<close> does with \<open>list(self)\<close>: the \<open>while 1\<close>
  loop loads the row at \<open>_pos\<close>, stops at \<open>None\<close>, and otherwise advances and yields.
\<close>

function iter_rows :: "cursor \<Rightarrow> bytes option list list \<times> cursor" where
  "iter_rows cur =
     (case load_row cur (c_pos cur) of
        None \<Rightarrow> ([], cur)
      | Some row \<Rightarrow>
          (let (rows, cur1) = iter_rows (cur\<lparr>c_pos := c_pos cur + 1\<rparr>)
           in (row # rows, cur1)))"
  by pat_completeness auto
termination
  by (relation "measure (\<lambda>cur. (case c_pgresult cur of None \<Rightarrow> 0
                                  | Some res \<Rightarrow> length (tuples res)) - c_pos cur)")
     (auto simp: load_row_def split: option.splits if_splits)

declare iter_rows.simps [simp del]

definition fetchall :: "cursor \<Rightarrow> error + (bytes option list list \<times> cursor)" where
  "fetchall cur =
     (case check_result cur of
        Inl e \<Rightarrow> Inl e
      | Inr _ \<Rightarrow> Inr (iter_rows cur))"

text \<open>A result that carries rows, and a cursor that has it as its current result.\<close>

definition tuples_result :: "bytes option list list \<Rightarrow> PGresult" where
  "tuples_result rows =
     \<lparr>status = TUPLES_OK, command_tuples = Some (int (length rows)), binary_tuples = TEXT,
      tuples = rows\<rparr>"

definition cursor_on :: "PGresult \<Rightarrow> cursor" where
  "cursor_on res =
     (init_cursor (init_connection []) TEXT)
       \<lparr>c_results := [res], c_pgresult := Some res, c_rowcount := 0\<rparr>"


section \<open>Result triage\<close>

lemma badstats_empty_iff:
  "set (map status rs) - status_ok = {} \<longleftrightarrow> (\<forall>r \<in> set rs. status r \<in> status_ok)"
  by auto

lemma badstats_copy_iff:
  "(set (map status rs) - status_ok) \<inter> status_copy \<noteq> {}
   \<longleftrightarrow> (\<exists>r \<in> set rs. status r \<in> status_copy)"
proof -
  have "(set (map status rs) - status_ok) \<inter> status_copy = status ` set rs \<inter> status_copy"
    by (auto simp: status_ok_def status_copy_def)
  then show ?thesis
    by auto
qed

lemma execute_results_accept:
  assumes "rs \<noteq> []" and "\<forall>r \<in> set rs. status r \<in> status_ok"
  shows "execute_results cur rs =
           Inr (cur\<lparr>c_results := rs, c_pgresult := Some (hd rs),
                    c_rowcount := (case command_tuples (hd rs) of
                                     None \<Rightarrow> c_rowcount cur
                                   | Some nrows \<Rightarrow> if c_rowcount cur < 0 then nrows
                                                   else c_rowcount cur + nrows)\<rparr>)"
proof -
  have "set (map status rs) - status_ok = {}"
    using assms(2) by (simp only: badstats_empty_iff)
  then show ?thesis
    using assms(1) by (simp add: execute_results_def Let_def split: option.split)
qed

lemma execute_results_reject:
  assumes "rs \<noteq> []" and "\<not> (\<forall>r \<in> set rs. status r \<in> status_ok)"
  shows "execute_results cur rs =
           (if status (last rs) = FATAL_ERROR then Inl (ServerError (last rs))
            else if \<exists>r \<in> set rs. status r \<in> status_copy
              then Inl (ProgrammingError ''COPY cannot be used with execute(); use copy() insead'')
            else Inl (InternalError ''got unexpected status from query''))"
proof -
  have "set (map status rs) - status_ok \<noteq> {}"
    using assms(2) by (simp only: badstats_empty_iff) simp
  then show ?thesis
    using assms(1) badstats_copy_iff [of rs]
    by (simp add: execute_results_def Let_def)
qed

text \<open>
  C7.  For a non-empty result sequence: when every status is one of \<open>TUPLES_OK\<close>,
  \<open>COMMAND_OK\<close>, \<open>EMPTY_QUERY\<close> the results are accepted; otherwise a last result with
  status \<open>FATAL_ERROR\<close> raises the server error decoded from it; otherwise any COPY status
  raises \<open>ProgrammingError\<close>; otherwise \<open>InternalError\<close> is raised.
\<close>

theorem execute_results_triage:
  "rs \<noteq> [] \<Longrightarrow>
   ((\<forall>r \<in> set rs. status r \<in> {TUPLES_OK, COMMAND_OK, EMPTY_QUERY})
      \<longrightarrow> (\<exists>cur'. execute_results cur rs = Inr cur' \<and> c_results cur' = rs
                   \<and> c_pgresult cur' = Some (hd rs))) \<and>
   (\<not> (\<forall>r \<in> set rs. status r \<in> {TUPLES_OK, COMMAND_OK, EMPTY_QUERY})
      \<longrightarrow> (if status (last rs) = FATAL_ERROR
             then execute_results cur rs = Inl (ServerError (last rs))
           else if \<exists>r \<in> set rs. status r \<in> {COPY_IN, COPY_OUT, COPY_BOTH}
             then \<exists>m. execute_results cur rs = Inl (ProgrammingError m)
           else \<exists>m. execute_results cur rs = Inl (InternalError m)))"
proof (intro conjI impI)
  assume "rs \<noteq> []" and "\<forall>r \<in> set rs. status r \<in> {TUPLES_OK, COMMAND_OK, EMPTY_QUERY}"
  then show "\<exists>cur'. execute_results cur rs = Inr cur' \<and> c_results cur' = rs
                   \<and> c_pgresult cur' = Some (hd rs)"
    using execute_results_accept [of rs cur] by (simp add: status_ok_def)
next
  assume "rs \<noteq> []" and "\<not> (\<forall>r \<in> set rs. status r \<in> {TUPLES_OK, COMMAND_OK, EMPTY_QUERY})"
  then have "execute_results cur rs =
           (if status (last rs) = FATAL_ERROR then Inl (ServerError (last rs))
            else if \<exists>r \<in> set rs. status r \<in> {COPY_IN, COPY_OUT, COPY_BOTH}
              then Inl (ProgrammingError ''COPY cannot be used with execute(); use copy() insead'')
            else Inl (InternalError ''got unexpected status from query''))"
    using execute_results_reject [of rs cur] by (simp add: status_ok_def status_copy_def)
  then show "if status (last rs) = FATAL_ERROR
             then execute_results cur rs = Inl (ServerError (last rs))
           else if \<exists>r \<in> set rs. status r \<in> {COPY_IN, COPY_OUT, COPY_BOTH}
             then \<exists>m. execute_results cur rs = Inl (ProgrammingError m)
           else \<exists>m. execute_results cur rs = Inl (InternalError m)"
    by simp
qed

theorem execute_results_triage_witness:
  "[ok_result None, (ok_result None)\<lparr>status := COPY_IN\<rparr>] \<noteq> []
   \<and> (\<exists>m. execute_results (init_cursor (init_connection []) TEXT)
              [ok_result None, (ok_result None)\<lparr>status := COPY_IN\<rparr>]
            = Inl (ProgrammingError m))"
  using execute_results_triage
          [of "[ok_result None, (ok_result None)\<lparr>status := COPY_IN\<rparr>]"
              "init_cursor (init_connection []) TEXT"]
  by (simp add: ok_result_def)

section \<open>Row count after execute\<close>

lemma execute_Inr:
  assumes "execute cur q ps = Inr cur'"
  shows "\<exists>rs rest. replies (c_conn cur) = rs # rest \<and> rs \<noteq> []
           \<and> (\<forall>r \<in> set rs. status r \<in> status_ok)
           \<and> c_results cur' = rs
           \<and> c_rowcount cur' = (case command_tuples (hd rs) of None \<Rightarrow> - 1 | Some n \<Rightarrow> n)"
proof -
  obtain cur1 where s: "start_query cur = Inr cur1"
    using assms by (auto simp: execute_def split: sum.splits)
  then have cur1: "cur1 = reset cur"
    by (auto simp: start_query_def split: if_splits)
  define cur2 where "cur2 = execute_send cur1 q ps False"
  have rc: "c_rowcount cur2 = - 1" and cn: "replies (c_conn cur2) = replies (c_conn cur)"
    by (simp_all add: cur2_def cur1 execute_send_def reset_def Let_def pgconn_send_def)
  obtain rs cn' where w: "wait_execute (c_conn cur2) = (rs, cn')"
    by (cases "wait_execute (c_conn cur2)")
  have er: "execute_results (cur2\<lparr>c_conn := cn'\<rparr>) rs = Inr cur'"
    using assms s w by (simp add: execute_def cur2_def)
  have ne: "rs \<noteq> []"
    using er by (auto simp: execute_results_def)
  have ok: "\<forall>r \<in> set rs. status r \<in> status_ok"
  proof (rule ccontr)
    assume "\<not> ?thesis"
    from execute_results_reject [OF ne this] er show False
      by (simp split: if_splits)
  qed
  have rep: "\<exists>rest. replies (c_conn cur) = rs # rest"
    using w ne cn by (auto simp: wait_execute_def split: list.splits)
  from execute_results_accept [OF ne ok, of "cur2\<lparr>c_conn := cn'\<rparr>"] er rc
  have "c_results cur' = rs
        \<and> c_rowcount cur' = (case command_tuples (hd rs) of None \<Rightarrow> - 1 | Some n \<Rightarrow> n)"
    by (auto split: option.splits)
  with rep ne ok show ?thesis by blast
qed

text \<open>
  C2, as the code has it.  After a successful \<open>execute\<close> the cursor holds at least one result,
  and \<open>rowcount\<close> is the \<open>command_tuples\<close> of the first result when that is defined, and
  \<open>-1\<close> when it is not; the later results do not enter it.
\<close>

theorem execute_rowcount_first:
  "execute cur q ps = Inr cur' \<Longrightarrow>
   c_results cur' \<noteq> [] \<and>
   c_rowcount cur' = (case command_tuples (hd (c_results cur')) of None \<Rightarrow> - 1 | Some n \<Rightarrow> n)"
  using execute_Inr [of cur q ps cur'] by auto

theorem execute_rowcount_first_witness:
  "map_sum id (\<lambda>c. (c_rowcount c, map command_tuples (c_results c)))
     (execute (init_cursor (init_connection [[ok_result (Some 1), ok_result (Some 2)]]) TEXT)
        ''q'' None)
   = Inr (1, [Some 1, Some 2])"
proof -
  define cur' where "cur' = (init_cursor (init_connection []) TEXT)
          \<lparr>c_conn := (init_connection [])\<lparr>sent := [SendQuery ''q'']\<rparr>,
           c_results := [ok_result (Some 1), ok_result (Some 2)],
           c_pgresult := Some (ok_result (Some 1)), c_rowcount := 1, c_query := Some ''q''\<rparr>"
  have e: "execute (init_cursor (init_connection [[ok_result (Some 1), ok_result (Some 2)]]) TEXT)
             ''q'' None = Inr cur'"
    by (simp add: cur'_def execute_def start_query_def init_cursor_def init_connection_def
      reset_def execute_send_def convert_def wait_execute_def pgconn_send_def
      execute_results_def status_ok_def ok_result_def Let_def)
  have r: "c_results cur' = [ok_result (Some 1), ok_result (Some 2)]"
    by (simp add: cur'_def)
  from execute_rowcount_first [OF e] have rc: "c_rowcount cur' = 1"
    by (simp add: r ok_result_def)
  show ?thesis
    unfolding e by (simp add: rc r ok_result_def)
qed

text \<open>
  The claim as the specification words it fails: two results with row counts 1 and 2
  leave \<open>rowcount\<close> at 1, not at their sum.
\<close>

theorem execute_rowcount_sum_counterexample:
  "\<not> (\<forall>cur'. execute (init_cursor (init_connection [[ok_result (Some 1), ok_result (Some 2)]]) TEXT)
                  ''q'' None = Inr cur'
        \<longrightarrow> c_rowcount cur' = rowcount_sum (c_results cur'))"
  by (simp add: execute_def start_query_def init_cursor_def init_connection_def reset_def
      execute_send_def convert_def wait_execute_def pgconn_send_def
      execute_results_def status_ok_def ok_result_def Let_def rowcount_sum_def)

section \<open>executemany prepares on every iteration\<close>

text \<open>
  C1.  With two parameter sets and a server that answers every request with
  \<open>COMMAND_OK\<close>, \<open>executemany\<close> succeeds and has sent \<open>send_prepare\<close> twice, once before each
  \<open>send_query_prepared\<close>: the flag \<open>first\<close> is still true in the second iteration.
\<close>

theorem executemany_prepares_twice:
  "map_sum id (\<lambda>c. (sent (c_conn c), count_prepares (sent (c_conn c))))
     (executemany
        (init_cursor (init_connection
           [[ok_result None], [ok_result (Some 1)], [ok_result None], [ok_result (Some 1)]]) TEXT)
        ''q'' [[Some ''a''], [Some ''b'']])
   = Inr ([SendPrepare [] ''q'', SendQueryPrepared [] [Some ''a''],
           SendPrepare [] ''q'', SendQueryPrepared [] [Some ''b'']], 2)"
  by (simp add: executemany_def start_query_def init_cursor_def init_connection_def reset_def
      send_prepare_def convert_def wait_single_def wait_execute_def pgconn_send_def
      send_query_prepared_def execute_results_def status_ok_def ok_result_def Let_def
      count_prepares_def)

section \<open>Row position\<close>

lemma check_result_tuples_ok:
  "c_pgresult cur = Some res \<Longrightarrow> status res = TUPLES_OK \<Longrightarrow> check_result cur = Inr ()"
  by (simp add: check_result_def)

lemma fetchone_step:
  assumes "c_pgresult cur = Some res" and "status res = TUPLES_OK"
  shows "fetchone cur =
           (if c_pos cur < length (tuples res)
            then Inr (Some (tuples res ! c_pos cur), cur\<lparr>c_pos := c_pos cur + 1\<rparr>)
            else Inr (None, cur))"
  using assms by (simp add: fetchone_def check_result_def load_row_def)

lemma fetchone_times_rows:
  assumes "c_pgresult cur = Some res" and "status res = TUPLES_OK"
    and "c_pos cur \<le> length (tuples res)"
  shows "fetchone_times k cur =
           Inr (map Some (take k (drop (c_pos cur) (tuples res)))
                  @ replicate (k - (length (tuples res) - c_pos cur)) None,
                cur\<lparr>c_pos := min (c_pos cur + k) (length (tuples res))\<rparr>)"
  using assms
proof (induction k arbitrary: cur)
  case 0
  then show ?case by simp
next
  case (Suc k)
  show ?case
  proof (cases "c_pos cur < length (tuples res)")
    case True
    let ?cur1 = "cur\<lparr>c_pos := c_pos cur + 1\<rparr>"
    have f: "fetchone cur = Inr (Some (tuples res ! c_pos cur), ?cur1)"
      using fetchone_step [OF Suc.prems(1,2)] True by simp
    have ih: "fetchone_times k ?cur1 =
           Inr (map Some (take k (drop (c_pos ?cur1) (tuples res)))
                  @ replicate (k - (length (tuples res) - c_pos ?cur1)) None,
                ?cur1\<lparr>c_pos := min (c_pos ?cur1 + k) (length (tuples res))\<rparr>)"
      using Suc.prems True by (intro Suc.IH) simp_all
    have d: "drop (c_pos cur) (tuples res)
               = tuples res ! c_pos cur # drop (Suc (c_pos cur)) (tuples res)"
      using True by (simp add: Cons_nth_drop_Suc)
    have r: "Suc k - (length (tuples res) - c_pos cur)
               = k - (length (tuples res) - Suc (c_pos cur))"
      using True by arith
    show ?thesis
      using ih by (simp add: f d r)
  next
    case False
    with Suc.prems have eq: "c_pos cur = length (tuples res)" by simp
    have f: "fetchone cur = Inr (None, cur)"
      using fetchone_step [OF Suc.prems(1,2)] False by simp
    have ih: "fetchone_times k cur =
           Inr (map Some (take k (drop (c_pos cur) (tuples res)))
                  @ replicate (k - (length (tuples res) - c_pos cur)) None,
                cur\<lparr>c_pos := min (c_pos cur + k) (length (tuples res))\<rparr>)"
      using Suc.prems by (intro Suc.IH)
    show ?thesis
      using ih by (simp add: f eq)
  qed
qed

lemma fetchmany_loop_bound:
  assumes "c_pgresult cur = Some res" and "p \<le> length (tuples res)"
  shows "fetchmany_loop n cur p rv
           = (min (p + n) (length (tuples res)), rv @ take n (drop p (tuples res)))"
  using assms(2)
proof (induction n arbitrary: p rv)
  case 0
  then show ?case by simp
next
  case (Suc n)
  show ?case
  proof (cases "p < length (tuples res)")
    case True
    then have l: "load_row cur p = Some (tuples res ! p)"
      using assms(1) by (simp add: load_row_def)
    have d: "drop p (tuples res) = tuples res ! p # drop (Suc p) (tuples res)"
      using True by (simp add: Cons_nth_drop_Suc)
    from True have "Suc p \<le> length (tuples res)" by simp
    from Suc.IH [OF this] show ?thesis
      by (simp add: l d)
  next
    case False
    with Suc.prems have "p = length (tuples res)" by simp
    then show ?thesis
      using assms(1) by (simp add: load_row_def)
  qed
qed

lemma iter_rows_bound:
  assumes "c_pgresult cur = Some res" and "c_pos cur \<le> length (tuples res)"
  shows "iter_rows cur = (drop (c_pos cur) (tuples res), cur\<lparr>c_pos := length (tuples res)\<rparr>)"
  using assms
proof (induction cur rule: iter_rows.induct)
  case (1 cur)
  show ?case
  proof (cases "c_pos cur < length (tuples res)")
    case True
    then have l: "load_row cur (c_pos cur) = Some (tuples res ! c_pos cur)"
      using "1.prems"(1) by (simp add: load_row_def)
    have d: "drop (c_pos cur) (tuples res)
               = tuples res ! c_pos cur # drop (Suc (c_pos cur)) (tuples res)"
      using True by (simp add: Cons_nth_drop_Suc)
    have "iter_rows (cur\<lparr>c_pos := c_pos cur + 1\<rparr>)
            = (drop (c_pos (cur\<lparr>c_pos := c_pos cur + 1\<rparr>)) (tuples res),
               cur\<lparr>c_pos := c_pos cur + 1\<rparr>\<lparr>c_pos := length (tuples res)\<rparr>)"
      using l "1.prems" True by (intro "1.IH") simp_all
    then show ?thesis
      by (subst iter_rows.simps) (simp add: l d)
  next
    case False
    then have l: "load_row cur (c_pos cur) = None"
      using "1.prems"(1) by (simp add: load_row_def)
    from False "1.prems"(2) have eq: "c_pos cur = length (tuples res)" by simp
    have same: "cur\<lparr>c_pos := length (tuples res)\<rparr> = cur"
      unfolding eq [symmetric] by simp
    have none: "drop (c_pos cur) (tuples res) = []"
      by (simp add: eq)
    show ?thesis
      unfolding same none by (subst iter_rows.simps) (simp only: l option.case)
  qed
qed

text \<open>
  C9.  On a cursor whose current result has status \<open>TUPLES_OK\<close> and \<open>N\<close> rows, with the row
  position within \<open>[0, N]\<close>: \<open>k\<close> calls of \<open>fetchone\<close> return the rows from the position on,
  in server order, and then \<open>None\<close> on every later call (from position 0: the \<open>N\<close> rows, then
  \<open>None\<close>); one call of \<open>fetchone\<close> moves the position by one when it returns a row and leaves
  it when it returns \<open>None\<close>; and after \<open>fetchone\<close>, \<open>fetchmany\<close> and a full iteration the
  position has not gone back and is still at most \<open>N\<close>.
\<close>

theorem fetch_row_position:
  "c_pgresult cur = Some res \<Longrightarrow> status res = TUPLES_OK \<Longrightarrow> c_pos cur \<le> length (tuples res) \<Longrightarrow>
   (\<exists>cur'. fetchone_times k cur =
             Inr (map Some (take k (drop (c_pos cur) (tuples res)))
                    @ replicate (k - (length (tuples res) - c_pos cur)) None, cur')
           \<and> c_pos cur' = min (c_pos cur + k) (length (tuples res))) \<and>
   (\<exists>rv cur'. fetchone cur = Inr (rv, cur')
           \<and> c_pos cur' = c_pos cur + (if rv = None then 0 else 1)
           \<and> c_pos cur' \<le> length (tuples res)) \<and>
   (\<exists>rows cur'. fetchmany cur sz = Inr (rows, cur')
           \<and> c_pos cur \<le> c_pos cur' \<and> c_pos cur' \<le> length (tuples res)) \<and>
   (\<exists>rows cur'. fetchall cur = Inr (rows, cur')
           \<and> c_pos cur \<le> c_pos cur' \<and> c_pos cur' \<le> length (tuples res))"
proof (intro conjI)
  assume a: "c_pgresult cur = Some res" "status res = TUPLES_OK"
    "c_pos cur \<le> length (tuples res)"
  show "\<exists>cur'. fetchone_times k cur =
             Inr (map Some (take k (drop (c_pos cur) (tuples res)))
                    @ replicate (k - (length (tuples res) - c_pos cur)) None, cur')
           \<and> c_pos cur' = min (c_pos cur + k) (length (tuples res))"
    using fetchone_times_rows [OF a, of k] by simp
  show "\<exists>rv cur'. fetchone cur = Inr (rv, cur')
           \<and> c_pos cur' = c_pos cur + (if rv = None then 0 else 1)
           \<and> c_pos cur' \<le> length (tuples res)"
    using fetchone_step [OF a(1,2)] a(3) by simp
  show "\<exists>rows cur'. fetchmany cur sz = Inr (rows, cur')
           \<and> c_pos cur \<le> c_pos cur' \<and> c_pos cur' \<le> length (tuples res)"
    using fetchmany_loop_bound [OF a(1) a(3)] check_result_tuples_ok [OF a(1,2)] a(3)
    by (simp add: fetchmany_def Let_def)
  show "\<exists>rows cur'. fetchall cur = Inr (rows, cur')
           \<and> c_pos cur \<le> c_pos cur' \<and> c_pos cur' \<le> length (tuples res)"
    using iter_rows_bound [OF a(1) a(3)] check_result_tuples_ok [OF a(1,2)] a(3)
    by (simp add: fetchall_def)
qed

theorem fetch_row_position_witness:
  "\<exists>cur'. fetchone_times (Suc (Suc (Suc 0))) (cursor_on (tuples_result [[Some ''a''], [Some ''b'']]))
             = Inr ([Some [Some ''a''], Some [Some ''b''], None], cur')
           \<and> c_pos cur' = 2"
proof -
  let ?res = "tuples_result [[Some ''a''], [Some ''b'']]"
  have h1: "c_pgresult (cursor_on ?res) = Some ?res"
    by (simp add: cursor_on_def)
  have h2: "status ?res = TUPLES_OK"
    by (simp add: tuples_result_def)
  have h3: "c_pos (cursor_on ?res) \<le> length (tuples ?res)"
    by (simp add: cursor_on_def init_cursor_def)
  have p: "c_pos (cursor_on ?res) = 0" and t: "tuples ?res = [[Some ''a''], [Some ''b'']]"
    by (simp_all add: cursor_on_def init_cursor_def tuples_result_def)
  from fetch_row_position [OF h1 h2 h3, of "Suc (Suc (Suc 0))" 0] show ?thesis
    by (simp add: p t numeral_2_eq_2 del: fetchone_times.simps)
qed


end
